theory Spec2Isabelle
  imports Main "HOL-Library.AList"
begin

section \<open>JavaScript values\<close>

text \<open>
  The logger inspects values of unknown shape, so the embedding starts with the part of
  the JavaScript value universe the sources can observe through \<open>typeof\<close>, truthiness,
  property reads, \<open>String(...)\<close>, template literals, \<open>instanceof Error\<close>,
  \<open>Array.isArray\<close> and \<open>JSON.stringify\<close>.

  A number is an IEEE double. The sources never calculate with numbers: they test them
  for truthiness and convert them to strings. A number is therefore \<open>NaN\<close>, a zero, or a
  nonzero number named by the text that \<open>Number.prototype.toString\<close> gives for it.
\<close>

datatype jsnum = NaN | Zero | Num string

fun num_String :: "jsnum \<Rightarrow> string" where
  "num_String NaN = ''NaN''"
| "num_String Zero = ''0''"
| "num_String (Num s) = s"

type_synonym addr = nat

text \<open>
  Objects that may be shared, cyclic or hostile live in a heap and are referred to by
  address (\<open>JRef\<close>). An array that is referenced from one place only can also be held
  by value (\<open>JArr\<close>); the arrays that \<open>Array.prototype.map\<close> returns are such.
  \<open>JErrInfo n m s\<close> is the literal \<^verbatim>\<open>{ name: n, message: m, stack: s }\<close> that
  \<open>sanitizeValue\<close> builds, held by value as well. \<open>JBuiltin n\<close> is the built-in
  constructor function called \<open>n\<close>, such as \<open>Object\<close> or \<open>Error\<close>.
\<close>

datatype jsval =
    JUndefined
  | JNull
  | JBool bool
  | JNum jsnum
  | JStr string
  | JBigInt int
  | JSymbol string
  | JBuiltin string
  | JArr "jsval list"
  | JErrInfo jsval jsval jsval
  | JRef addr

text \<open>
  What a \<open>catch\<close> receives: \<open>Exn name message\<close> is a new error object with that name
  and message, as the engine and \<^verbatim>\<open>throw new Error(...)\<close> create them; \<open>Thrown v\<close>
  is any other value \<open>v\<close> given to \<open>throw\<close>. A computation that may throw returns
  \<open>Inl\<close> of what it throws or \<open>Inr\<close> of its value.
\<close>

datatype exn = Exn string string | Thrown jsval

type_synonym 'a completion = "exn + 'a"

definition TypeError :: "string \<Rightarrow> exn" where
  "TypeError msg = Exn ''TypeError'' msg"

definition and_then :: "'a completion \<Rightarrow> ('a \<Rightarrow> 'b completion) \<Rightarrow> 'b completion" where
  "and_then c f = (case c of Inl e \<Rightarrow> Inl e | Inr x \<Rightarrow> f x)"

text \<open>
  A property of a heap object is a writable data property (\<open>Data\<close>), a data property
  that is not writable, as those of a frozen object (\<open>ReadOnly\<close>), an accessor
  without setter (\<open>Getter\<close>), or an accessor with both (\<open>Accessor\<close>). An accessor is
  given by what reading it does: throw or return a value (the same on every read), and
  by what calling its setter does: throw or return, with no other effect on the objects
  of the model. The flag of a slot says whether the property
  is an own enumerable one, which is what \<open>JSON.stringify\<close> and \<open>Object.entries\<close>
  visit; a property read sees every slot, inherited ones included. \<open>toStr\<close> is what
  converting the object to a string does (through its \<open>Symbol.toPrimitive\<close>,
  \<open>toString\<close> and \<open>valueOf\<close>), \<open>elems\<close> are the elements of an array.
\<close>

datatype property =
    Data jsval
  | ReadOnly jsval
  | Getter "jsval completion"
  | Accessor "jsval completion" "unit completion"

fun read_property :: "property \<Rightarrow> jsval completion" where
  "read_property (Data v) = Inr v"
| "read_property (ReadOnly v) = Inr v"
| "read_property (Getter c) = c"
| "read_property (Accessor c s) = c"

datatype objkind = KOrdinary | KArray | KFunction | KError

record jsobj =
  kind :: objkind
  slots :: "(string \<times> bool \<times> property) list"
  elems :: "jsval list"
  toStr :: "string completion"

type_synonym heap = "jsobj list"

definition null_prototype_object :: jsobj where
  "null_prototype_object =
     \<lparr>kind = KOrdinary, slots = [], elems = [],
      toStr = Inl (TypeError ''Cannot convert object to primitive value'')\<rparr>"

text \<open>
  Addresses index the heap. An address beyond the heap stands for an empty object
  without prototype, so that every function below is defined on every value.
\<close>

definition deref :: "heap \<Rightarrow> addr \<Rightarrow> jsobj" where
  "deref h a = (if a < length h then h ! a else null_prototype_object)"

text \<open>The object literal \<^verbatim>\<open>{ k1: v1, ... }\<close> and the result of \<^verbatim>\<open>new Error(msg)\<close>.\<close>

definition plain_object :: "(string \<times> jsval) list \<Rightarrow> jsobj" where
  "plain_object kvs =
     \<lparr>kind = KOrdinary,
      slots = map (\<lambda>(k, v). (k, True, Data v)) kvs
              @ [(''constructor'', False, Data (JBuiltin ''Object''))],
      elems = [],
      toStr = Inr ''[object Object]''\<rparr>"

definition new_Error :: "string \<Rightarrow> string \<Rightarrow> jsobj" where
  "new_Error msg stack =
     \<lparr>kind = KError,
      slots = [(''message'', False, Data (JStr msg)),
               (''stack'', False, Data (JStr stack)),
               (''name'', False, Data (JStr ''Error'')),
               (''constructor'', False, Data (JBuiltin ''Error''))],
      elems = [],
      toStr = Inr (if msg = [] then ''Error'' else ''Error: '' @ msg)\<rparr>"

subsection \<open>typeof, truthiness, property reads\<close>

fun typeof :: "heap \<Rightarrow> jsval \<Rightarrow> string" where
  "typeof h JUndefined = ''undefined''"
| "typeof h JNull = ''object''"
| "typeof h (JBool b) = ''boolean''"
| "typeof h (JNum n) = ''number''"
| "typeof h (JStr s) = ''string''"
| "typeof h (JBigInt i) = ''bigint''"
| "typeof h (JSymbol d) = ''symbol''"
| "typeof h (JBuiltin n) = ''function''"
| "typeof h (JArr xs) = ''object''"
| "typeof h (JErrInfo n m s) = ''object''"
| "typeof h (JRef a) = (if kind (deref h a) = KFunction then ''function'' else ''object'')"

fun truthy :: "jsval \<Rightarrow> bool" where
  "truthy JUndefined = False"
| "truthy JNull = False"
| "truthy (JBool b) = b"
| "truthy (JNum n) = (n \<noteq> NaN \<and> n \<noteq> Zero)"
| "truthy (JStr s) = (s \<noteq> [])"
| "truthy (JBigInt i) = (i \<noteq> 0)"
| "truthy v = True"

text \<open>
  Reading a property. Of primitives, by-value arrays and built-in functions the sources
  read only \<open>message\<close>, \<open>reason\<close>, \<open>details\<close>, \<open>stack\<close>, \<open>name\<close> and
  \<open>constructor\<close>.
\<close>

fun js_get :: "heap \<Rightarrow> jsval \<Rightarrow> string \<Rightarrow> jsval completion" where
  "js_get h JUndefined k =
     Inl (TypeError (''Cannot read properties of undefined (reading '' @ k @ '')''))"
| "js_get h JNull k =
     Inl (TypeError (''Cannot read properties of null (reading '' @ k @ '')''))"
| "js_get h (JBuiltin n) k = Inr (if k = ''name'' then JStr n else JUndefined)"
| "js_get h (JArr xs) k =
     Inr (if k = ''constructor'' then JBuiltin ''Array'' else JUndefined)"
| "js_get h (JErrInfo n m s) k =
     Inr (if k = ''name'' then n else if k = ''message'' then m
          else if k = ''stack'' then s
          else if k = ''constructor'' then JBuiltin ''Object'' else JUndefined)"
| "js_get h (JRef a) k =
     (case map_of (slots (deref h a)) k of
        None \<Rightarrow> Inr JUndefined
      | Some (_, p) \<Rightarrow> read_property p)"
| "js_get h v k = Inr JUndefined"

subsection \<open>Conversion to string\<close>

definition digit_char :: "nat \<Rightarrow> char" where
  "digit_char d = char_of (48 + d)"

fun nat_String :: "nat \<Rightarrow> string" where
  "nat_String n = (if n < 10 then [digit_char n] else nat_String (n div 10) @ [digit_char (n mod 10)])"

declare nat_String.simps [simp del]

definition int_String :: "int \<Rightarrow> string" where
  "int_String i = (if i < 0 then CHR ''-'' # nat_String (nat (- i)) else nat_String (nat i))"

text \<open>
  \<open>js_ToString\<close> is the conversion that a template literal and \<open>Array.prototype.join\<close>
  apply; it throws on a symbol. \<open>join\<close> renders \<open>undefined\<close> and \<open>null\<close> as the empty
  string. \<open>js_String\<close> is the function \<open>String(...)\<close>, which describes a symbol instead.
\<close>

fun js_ToString :: "heap \<Rightarrow> jsval \<Rightarrow> string completion"
  and join :: "heap \<Rightarrow> jsval list \<Rightarrow> string completion"
where
  "js_ToString h JUndefined = Inr ''undefined''"
| "js_ToString h JNull = Inr ''null''"
| "js_ToString h (JBool b) = Inr (if b then ''true'' else ''false'')"
| "js_ToString h (JNum n) = Inr (num_String n)"
| "js_ToString h (JStr s) = Inr s"
| "js_ToString h (JBigInt i) = Inr (int_String i)"
| "js_ToString h (JSymbol d) = Inl (TypeError ''Cannot convert a Symbol value to a string'')"
| "js_ToString h (JBuiltin n) = Inr (''function '' @ n @ ''() { [native code] }'')"
| "js_ToString h (JArr xs) = join h xs"
| "js_ToString h (JErrInfo n m s) = Inr ''[object Object]''"
| "js_ToString h (JRef a) = toStr (deref h a)"
| "join h [] = Inr []"
| "join h (x # xs) =
     and_then (if x = JUndefined \<or> x = JNull then Inr [] else js_ToString h x) (\<lambda>s.
       if xs = [] then Inr s else and_then (join h xs) (\<lambda>t. Inr (s @ '','' @ t)))"

fun js_String :: "heap \<Rightarrow> jsval \<Rightarrow> string completion" where
  "js_String h (JSymbol d) = Inr (''Symbol('' @ d @ '')'')"
| "js_String h v = js_ToString h v"

text \<open>\<^verbatim>\<open>e.message\<close> for a caught \<open>e\<close>, and \<^verbatim>\<open>e?.message\<close>.\<close>

definition caught_message :: "heap \<Rightarrow> exn \<Rightarrow> jsval completion" where
  "caught_message h e =
     (case e of Exn name msg \<Rightarrow> Inr (JStr msg) | Thrown v \<Rightarrow> js_get h v ''message'')"

definition caught_message_optional :: "heap \<Rightarrow> exn \<Rightarrow> jsval completion" where
  "caught_message_optional h e =
     (if e = Thrown JUndefined \<or> e = Thrown JNull then Inr JUndefined
      else caught_message h e)"

section \<open>Error utilities (src/utils/errors.js)\<close>

text \<open>
  A fields object is created by the sources as a literal and filled by assignment, so it
  is an association list in the order of \<open>Object.entries\<close>: assigning to an existing
  key replaces its value in place, assigning to a new key appends it.
\<close>

type_synonym fields = "(string \<times> jsval) list"

definition set_field :: "string \<Rightarrow> jsval \<Rightarrow> fields \<Rightarrow> fields" where
  "set_field k v fs = AList.update k v fs"

text \<open>
  \<^verbatim>\<open>fields.errorFormatError ? `${fields.errorFormatError}; <clause>` : '<clause>'\<close>
  The key, when present, holds a non-empty string written by an earlier block.
\<close>

definition joined_format_error :: "fields \<Rightarrow> string \<Rightarrow> string" where
  "joined_format_error fs clause =
     (case map_of fs ''errorFormatError'' of
        Some (JStr prev) \<Rightarrow> if prev \<noteq> [] then prev @ ''; '' @ clause else clause
      | _ \<Rightarrow> clause)"

definition extractMessage :: "heap \<Rightarrow> jsval \<Rightarrow> fields \<Rightarrow> fields completion" where
  "extractMessage h error fs =
     and_then (js_get h error ''message'') (\<lambda>present.
       if present \<noteq> JUndefined then
         and_then (js_get h error ''message'') (\<lambda>messageValue.
           if typeof h messageValue = ''string'' \<or> typeof h messageValue = ''number'' then
             and_then (js_String h messageValue) (\<lambda>s.
               Inr (set_field ''errorMessage'' (JStr s) fs))
           else
             and_then (js_String h messageValue) (\<lambda>s.
               Inr (set_field ''errorRawMessage'' (JStr s)
                     (set_field ''errorFormatError''
                        (JStr ''error.message must be a string or number'')
                        (set_field ''errorFormatInvalid'' (JBool True) fs)))))
       else Inr fs)"

definition extractReason :: "heap \<Rightarrow> jsval \<Rightarrow> fields \<Rightarrow> fields completion" where
  "extractReason h error fs =
     and_then (js_get h error ''reason'') (\<lambda>present.
       if present \<noteq> JUndefined then
         and_then (js_get h error ''reason'') (\<lambda>reasonValue.
           if typeof h reasonValue = ''string'' \<or> typeof h reasonValue = ''number'' then
             and_then (js_String h reasonValue) (\<lambda>s.
               Inr (set_field ''errorReason'' (JStr s) fs))
           else
             and_then (js_String h reasonValue) (\<lambda>s.
               Inr (set_field ''errorRawReason'' (JStr s)
                     (set_field ''errorFormatError''
                        (JStr (joined_format_error fs
                                 ''error.reason must be a string or number''))
                        (set_field ''errorFormatInvalid'' (JBool True) fs)))))
       else Inr fs)"

definition extractDetails :: "heap \<Rightarrow> jsval \<Rightarrow> fields \<Rightarrow> fields completion" where
  "extractDetails h error fs =
     and_then (js_get h error ''details'') (\<lambda>present.
       if present \<noteq> JUndefined then
         and_then (js_get h error ''details'') (\<lambda>detailsValue.
           if typeof h detailsValue = ''string'' \<or> typeof h detailsValue = ''number'' then
             and_then (js_String h detailsValue) (\<lambda>s.
               Inr (set_field ''errorDetails'' (JStr s) fs))
           else
             and_then (js_String h detailsValue) (\<lambda>s.
               Inr (set_field ''errorRawDetails'' (JStr s)
                     (set_field ''errorFormatError''
                        (JStr (joined_format_error fs
                                 ''error.details must be a string or number''))
                        (set_field ''errorFormatInvalid'' (JBool True) fs)))))
       else Inr fs)"

definition extractStack :: "heap \<Rightarrow> jsval \<Rightarrow> fields \<Rightarrow> fields completion" where
  "extractStack h error fs =
     and_then (js_get h error ''stack'') (\<lambda>present.
       if present \<noteq> JUndefined then
         and_then (js_get h error ''stack'') (\<lambda>stackValue.
           if typeof h stackValue = ''string'' then
             Inr (set_field ''errorStack'' stackValue fs)
           else
             Inr (set_field ''errorFormatError''
                    (JStr (joined_format_error fs ''error.stack must be a string''))
                    (set_field ''errorFormatInvalid'' (JBool True) fs)))
       else Inr fs)"

text \<open>The body of the \<open>try\<close> block of \<open>extractErrorFields\<close>.\<close>

definition extractErrorFields_try :: "heap \<Rightarrow> jsval \<Rightarrow> fields completion" where
  "extractErrorFields_try h error =
     (if typeof h error \<noteq> ''object'' then
        and_then (js_String h error) (\<lambda>raw.
          Inr [(''errorFormatInvalid'', JBool True),
               (''errorFormatError'',
                  JStr (''Expected error to be an object, but received '' @ typeof h error)),
               (''errorRawValue'', JStr raw)])
      else if error = JNull then
        Inr [(''errorFormatInvalid'', JBool True),
             (''errorFormatError'', JStr ''Error object is null'')]
      else
        and_then (extractMessage h error []) (\<lambda>f1.
        and_then (extractReason h error f1) (\<lambda>f2.
        and_then (extractDetails h error f2) (\<lambda>f3.
        extractStack h error f3))))"

text \<open>
  \<open>extractErrorFields\<close>: the guard \<^verbatim>\<open>if (!error) return {}\<close>, the \<open>try\<close> block, and the
  \<open>catch\<close> handler, whose own \<^verbatim>\<open>${extractionError.message}\<close> and \<open>String(error)\<close>
  are outside any \<open>try\<close>.
\<close>

definition extractErrorFields :: "heap \<Rightarrow> jsval \<Rightarrow> fields completion" where
  "extractErrorFields h error =
     (if \<not> truthy error then Inr []
      else case extractErrorFields_try h error of
             Inr fs \<Rightarrow> Inr fs
           | Inl extractionError \<Rightarrow>
               and_then (caught_message h extractionError) (\<lambda>m.
               and_then (js_ToString h m) (\<lambda>msg.
               and_then (js_String h error) (\<lambda>raw.
                 Inr [(''errorFormatInvalid'', JBool True),
                      (''errorFormatError'',
                         JStr (''Failed to extract error fields: '' @ msg)),
                      (''errorRawValue'', JStr raw)]))))"

subsection \<open>shouldTreatAsWarning\<close>

fun startsWith :: "string \<Rightarrow> string \<Rightarrow> bool" where
  "startsWith s [] = True"
| "startsWith [] (d # p) = False"
| "startsWith (c # s) (d # p) = (c = d \<and> startsWith s p)"

text \<open>\<open>String.prototype.includes\<close>: the pattern occurs as a contiguous run.\<close>

fun str_includes :: "string \<Rightarrow> string \<Rightarrow> bool" where
  "str_includes [] p = (p = [])"
| "str_includes (c # s) p = (startsWith (c # s) p \<or> str_includes s p)"

text \<open>
  The call \<^verbatim>\<open>recv.includes(pattern)\<close>, where \<open>name\<close> is the variable holding the
  receiver. A string has \<open>String.prototype.includes\<close>, an array has
  \<open>Array.prototype.includes\<close> (is the pattern an element?); a number, a boolean, a
  plain object and an error object have no such method, and calling \<open>undefined\<close> throws
  a \<open>TypeError\<close>. An object carrying an \<open>includes\<close> function of its own is outside the
  model, which has no user-defined functions to call.
\<close>

definition not_a_function :: "string \<Rightarrow> exn" where
  "not_a_function name = TypeError (name @ ''.includes is not a function'')"

fun js_includes :: "heap \<Rightarrow> string \<Rightarrow> jsval \<Rightarrow> string \<Rightarrow> bool completion" where
  "js_includes h name (JStr s) pattern = Inr (str_includes s pattern)"
| "js_includes h name (JArr xs) pattern = Inr (JStr pattern \<in> set xs)"
| "js_includes h name (JRef a) pattern =
     (case map_of (slots (deref h a)) ''includes'' of
        None \<Rightarrow>
          if kind (deref h a) = KArray then Inr (JStr pattern \<in> set (elems (deref h a)))
          else Inl (not_a_function name)
      | Some (_, Getter (Inl e)) \<Rightarrow> Inl e
      | Some _ \<Rightarrow> Inl (not_a_function name))"
| "js_includes h name JUndefined pattern =
     Inl (TypeError ''Cannot read properties of undefined (reading includes)'')"
| "js_includes h name JNull pattern =
     Inl (TypeError ''Cannot read properties of null (reading includes)'')"
| "js_includes h name v pattern = Inl (not_a_function name)"

text \<open>
  \<open>Array.prototype.some\<close> with a callback that may throw: left to right, stopping at the
  first pattern for which the callback returns true or throws.
\<close>

fun some :: "('a \<Rightarrow> bool completion) \<Rightarrow> 'a list \<Rightarrow> bool completion" where
  "some f [] = Inr False"
| "some f (x # xs) =
     (case f x of Inl e \<Rightarrow> Inl e | Inr b \<Rightarrow> if b then Inr True else some f xs)"

text \<open>\<^verbatim>\<open>a || b\<close> on values.\<close>

definition or_else :: "jsval \<Rightarrow> jsval \<Rightarrow> jsval" where
  "or_else a b = (if truthy a then a else b)"

definition shouldTreatAsWarning :: "heap \<Rightarrow> jsval \<Rightarrow> string list \<Rightarrow> bool completion" where
  "shouldTreatAsWarning h error patterns =
     (if \<not> truthy error \<or> patterns = [] then Inr False
      else
        and_then (js_get h error ''message'') (\<lambda>m.
        and_then (js_get h error ''reason'') (\<lambda>r.
          let message = or_else m (JStr []); reason = or_else r (JStr [])
          in some (\<lambda>pattern.
                     and_then (js_includes h ''message'' message pattern) (\<lambda>found.
                       if found then Inr True
                       else js_includes h ''reason'' reason pattern))
                  patterns)))"

definition DEFAULT_WARNING_PATTERNS :: "string list" where
  "DEFAULT_WARNING_PATTERNS =
     [''User not found'', ''Failed to fetch'', ''Load failed'', ''Network error'', ''Timeout'']"

section \<open>Environment detection (src/utils/environment.js)\<close>

text \<open>
  The only process-wide state the logger reads is the variable \<open>NODE_ENV\<close> of
  \<open>process.env\<close>. Values stored in \<open>process.env\<close> are strings; an unset variable
  reads as \<open>undefined\<close>, here \<open>None\<close>.
\<close>

record process =
  NODE_ENV :: "string option"

definition ENVIRONMENT_PRODUCTION :: string where
  "ENVIRONMENT_PRODUCTION = ''production''"

definition ENVIRONMENT_STAGING :: string where
  "ENVIRONMENT_STAGING = ''staging''"

definition ENVIRONMENT_DEVELOPMENT :: string where
  "ENVIRONMENT_DEVELOPMENT = ''development''"

text \<open>
  \<^verbatim>\<open>return process.env.NODE_ENV || ENVIRONMENT_DEVELOPMENT;\<close>
  The operator \<open>||\<close> takes the right operand when the left one is falsy: \<open>undefined\<close> or
  the empty string.
\<close>

definition getEnvironment :: "process \<Rightarrow> string" where
  "getEnvironment p =
     (case NODE_ENV p of
        None \<Rightarrow> ENVIRONMENT_DEVELOPMENT
      | Some s \<Rightarrow> if s = [] then ENVIRONMENT_DEVELOPMENT else s)"

definition isProduction :: "process \<Rightarrow> bool" where
  "isProduction p = (getEnvironment p = ENVIRONMENT_PRODUCTION)"

definition isStaging :: "process \<Rightarrow> bool" where
  "isStaging p = (getEnvironment p = ENVIRONMENT_STAGING)"

definition isDevelopment :: "process \<Rightarrow> bool" where
  "isDevelopment p = (getEnvironment p = ENVIRONMENT_DEVELOPMENT)"

definition getEnvironmentPrefix :: "process \<Rightarrow> string" where
  "getEnvironmentPrefix p =
     (let env = getEnvironment p
      in if env = ENVIRONMENT_PRODUCTION then [] else env @ ''-'')"

lemmas environment_defs =
  getEnvironment_def isProduction_def isStaging_def isDevelopment_def
  getEnvironmentPrefix_def ENVIRONMENT_PRODUCTION_def ENVIRONMENT_STAGING_def
  ENVIRONMENT_DEVELOPMENT_def

section \<open>Transports (src/transports/base.js, console.js, slack.js)\<close>

definition LogLevels_DEBUG :: string where "LogLevels_DEBUG = ''debug''"
definition LogLevels_VERBOSE :: string where "LogLevels_VERBOSE = ''verbose''"
definition LogLevels_INFO :: string where "LogLevels_INFO = ''info''"
definition LogLevels_WARN :: string where "LogLevels_WARN = ''warn''"
definition LogLevels_ERROR :: string where "LogLevels_ERROR = ''error''"
definition LogLevels_ERROR_BACKGROUND :: string where
  "LogLevels_ERROR_BACKGROUND = ''error-background''"

definition SlackLevels_WARN :: string where "SlackLevels_WARN = ''warn''"
definition SlackLevels_ERROR :: string where "SlackLevels_ERROR = ''error''"
definition SlackLevels_ERROR_BACKGROUND :: string where
  "SlackLevels_ERROR_BACKGROUND = ''error-bg''"

lemmas level_defs =
  LogLevels_DEBUG_def LogLevels_VERBOSE_def LogLevels_INFO_def LogLevels_WARN_def
  LogLevels_ERROR_def LogLevels_ERROR_BACKGROUND_def SlackLevels_WARN_def
  SlackLevels_ERROR_def SlackLevels_ERROR_BACKGROUND_def

text \<open>
  The \<open>slack\<close> part of the logger configuration. An option that is left out is
  \<open>None\<close>; the webhook URL is a string, the two flags are booleans.
\<close>

record slack_config =
  cfg_webhookUrl :: "string option"
  cfg_enabled :: "bool option"
  cfg_skipInDevelopment :: "bool option"

text \<open>
  The fields of a \<open>SlackTransport\<close> that \<open>shouldHandle\<close> reads, as the constructor
  sets them: \<^verbatim>\<open>config.x !== undefined ? config.x : true\<close> for both flags.
\<close>

record slack_transport =
  webhookUrl :: "string option"
  enabled :: bool
  skipInDevelopment :: bool

definition new_SlackTransport :: "slack_config \<Rightarrow> slack_transport" where
  "new_SlackTransport config =
     \<lparr>webhookUrl = cfg_webhookUrl config,
      enabled = (case cfg_enabled config of None \<Rightarrow> True | Some b \<Rightarrow> b),
      skipInDevelopment = (case cfg_skipInDevelopment config of None \<Rightarrow> True | Some b \<Rightarrow> b)\<rparr>"

text \<open>A string option is truthy when it is a non-empty string.\<close>

definition truthy_string :: "string option \<Rightarrow> bool" where
  "truthy_string s = (case s of None \<Rightarrow> False | Some t \<Rightarrow> t \<noteq> [])"

definition SlackTransport_shouldHandle :: "slack_transport \<Rightarrow> process \<Rightarrow> string \<Rightarrow> bool" where
  "SlackTransport_shouldHandle this p level =
     (if \<not> enabled this \<or> \<not> truthy_string (webhookUrl this) then False
      else if skipInDevelopment this \<and> isDevelopment p then False
      else level \<in> set [LogLevels_WARN, LogLevels_ERROR, LogLevels_ERROR_BACKGROUND,
                          SlackLevels_WARN, SlackLevels_ERROR, SlackLevels_ERROR_BACKGROUND])"

subsection \<open>JSON.stringify as a probe\<close>

text \<open>
  \<open>sanitizeFields\<close> calls \<open>JSON.stringify\<close> only to see whether it throws. It throws on
  a \<open>BigInt\<close>, on an object or array met again while it is being serialised (a cycle),
  and when reading an enumerable own property throws; \<open>undefined\<close>, functions and
  symbols are skipped. The objects of the model have no \<open>toJSON\<close> method. \<open>st\<close> is the
  stack of the objects being serialised.
\<close>

definition json_children :: "jsobj \<Rightarrow> jsval completion list" where
  "json_children ob =
     (if kind ob = KArray then map Inr (elems ob)
      else map (\<lambda>(k, en, p). read_property p)
               (filter (\<lambda>(k, en, p). en) (slots ob)))"

function JSON_throws :: "heap \<Rightarrow> addr list \<Rightarrow> jsval \<Rightarrow> bool" where
  "JSON_throws h st (JBigInt i) = True"
| "JSON_throws h st (JArr xs) = (\<exists>x \<in> set xs. JSON_throws h st x)"
| "JSON_throws h st (JErrInfo n m s) =
     (JSON_throws h st n \<or> JSON_throws h st m \<or> JSON_throws h st s)"
| "JSON_throws h st (JRef a) =
     (if a < length h \<and> kind (h ! a) \<noteq> KFunction then
        if a \<in> set st then True
        else \<exists>c \<in> set (json_children (h ! a)).
               case c of Inl e \<Rightarrow> True | Inr x \<Rightarrow> JSON_throws h (a # st) x
      else False)"
| "JSON_throws h st JUndefined = False"
| "JSON_throws h st JNull = False"
| "JSON_throws h st (JBool b) = False"
| "JSON_throws h st (JNum n) = False"
| "JSON_throws h st (JStr s) = False"
| "JSON_throws h st (JSymbol d) = False"
| "JSON_throws h st (JBuiltin n) = False"
  by pat_completeness auto

termination JSON_throws
proof (relation "measures [\<lambda>(h, st, v). card ({..<length h} - set st), \<lambda>(h, st, v). size v]")
  show "wf (measures [\<lambda>(h, st, v). card ({..<length h} - set st), \<lambda>(h, st, v). size v])"
    by simp
next
  fix h :: heap and st :: "addr list" and xs :: "jsval list" and x :: jsval
  assume "x \<in> set xs"
  then have "size x < Suc (size_list size xs)"
    by (induction xs) auto
  then show "((h, st, x), h, st, JArr xs)
      \<in> measures [\<lambda>(h, st, v). card ({..<length h} - set st), \<lambda>(h, st, v). size v]"
    by simp
next
  fix h :: heap and st :: "addr list" and a :: addr and x :: jsval
  assume a: "a < length h \<and> kind (h ! a) \<noteq> KFunction" "a \<notin> set st"
  have "{..<length h} - set (a # st) \<subset> {..<length h} - set st"
    using a by auto
  then have "card ({..<length h} - set (a # st)) < card ({..<length h} - set st)"
    by (intro psubset_card_mono) auto
  then show "((h, a # st, x), h, st, JRef a)
      \<in> measures [\<lambda>(h, st, v). card ({..<length h} - set st), \<lambda>(h, st, v). size v]"
    by simp
qed auto

definition JSON_stringify_throws :: "heap \<Rightarrow> jsval \<Rightarrow> bool" where
  "JSON_stringify_throws h v = JSON_throws h [] v"

subsection \<open>sanitizeFields\<close>

definition isArray :: "heap \<Rightarrow> jsval \<Rightarrow> bool" where
  "isArray h v = (case v of JArr xs \<Rightarrow> True | JRef a \<Rightarrow> kind (deref h a) = KArray | _ \<Rightarrow> False)"

definition array_items :: "heap \<Rightarrow> jsval \<Rightarrow> jsval list" where
  "array_items h v = (case v of JArr xs \<Rightarrow> xs | JRef a \<Rightarrow> elems (deref h a) | _ \<Rightarrow> [])"

definition instanceof_Error :: "heap \<Rightarrow> jsval \<Rightarrow> bool" where
  "instanceof_Error h v = (case v of JRef a \<Rightarrow> kind (deref h a) = KError | _ \<Rightarrow> False)"

text \<open>
  \<open>seen\<close> is the \<open>WeakSet\<close> of one \<open>sanitizeFields\<close> call, a set of addresses. An
  object held by value is referenced from one place only, so it is never found in the
  set and adding it changes nothing that can be observed.
\<close>

definition seen_has :: "addr set \<Rightarrow> jsval \<Rightarrow> bool" where
  "seen_has seen v = (case v of JRef a \<Rightarrow> a \<in> seen | _ \<Rightarrow> False)"

definition seen_add :: "addr set \<Rightarrow> jsval \<Rightarrow> addr set" where
  "seen_add seen v = (case v of JRef a \<Rightarrow> insert a seen | _ \<Rightarrow> seen)"

text \<open>
  The handler of \<^verbatim>\<open>catch (stringifyError)\<close>: for an \<open>Error\<close> the literal
  \<^verbatim>\<open>{ name: value.name || 'Error', message: value.message || String(value),
  stack: value.stack || undefined }\<close>, evaluated left to right, otherwise
  \<^verbatim>\<open>`[Non-serializable ${value.constructor?.name || 'Object'}]`\<close>.
\<close>

definition describe_unserializable :: "heap \<Rightarrow> jsval \<Rightarrow> jsval completion" where
  "describe_unserializable h v =
     (if instanceof_Error h v then
        and_then (js_get h v ''name'') (\<lambda>n.
        and_then (js_get h v ''message'') (\<lambda>m.
        and_then (if truthy m then Inr m
                  else and_then (js_String h v) (\<lambda>s. Inr (JStr s))) (\<lambda>message.
        and_then (js_get h v ''stack'') (\<lambda>s.
          Inr (JErrInfo (or_else n (JStr ''Error'')) message (or_else s JUndefined))))))
      else
        and_then (js_get h v ''constructor'') (\<lambda>c.
        and_then (if c = JUndefined \<or> c = JNull then Inr JUndefined
                  else js_get h c ''name'') (\<lambda>n.
        and_then (js_ToString h (or_else n (JStr ''Object''))) (\<lambda>s.
          Inr (JStr (''[Non-serializable '' @ s @ '']''))))))"

text \<open>The branch \<^verbatim>\<open>if (typeof value === 'object') { ... }\<close> of \<open>sanitizeValue\<close>.\<close>

definition sanitizeObject :: "heap \<Rightarrow> addr set \<Rightarrow> jsval \<Rightarrow> jsval completion \<times> addr set" where
  "sanitizeObject h seen v =
     (if seen_has seen v then (Inr (JStr ''[Circular Reference]''), seen)
      else if \<not> JSON_stringify_throws h v then (Inr v, seen_add seen v)
      else (describe_unserializable h v, seen_add seen v))"

text \<open>
  \<open>sanitizeValue\<close> with its \<open>depth\<close> argument; \<open>sanitizeItems\<close> is
  \<^verbatim>\<open>value.map((item) => sanitizeValue(item, depth + 1))\<close>, which visits the elements
  from left to right and stops at the first one that throws. The elements of a heap
  array are read from the heap, so the recursion follows cycles; it ends because
  \<open>depth\<close> grows.
\<close>

function sanitizeValue :: "heap \<Rightarrow> addr set \<Rightarrow> jsval \<Rightarrow> nat \<Rightarrow> jsval completion \<times> addr set"
  and sanitizeItems :: "heap \<Rightarrow> addr set \<Rightarrow> jsval list \<Rightarrow> nat \<Rightarrow> jsval list completion \<times> addr set"
where
  "sanitizeValue h seen v depth =
     (if depth > 5 then (Inr (JStr ''[Max depth reached]''), seen)
      else if v = JNull \<or> v = JUndefined then (Inr v, seen)
      else if typeof h v = ''string'' \<or> typeof h v = ''number'' \<or> typeof h v = ''boolean''
        then (Inr v, seen)
      else if isArray h v then
        (case sanitizeItems h seen (array_items h v) (depth + 1) of
           (Inl e, seen') \<Rightarrow> (Inl e, seen')
         | (Inr ys, seen') \<Rightarrow> (Inr (JArr ys), seen'))
      else if typeof h v = ''object'' then sanitizeObject h seen v
      else (case js_String h v of
              Inr s \<Rightarrow> (Inr (JStr s), seen)
            | Inl e \<Rightarrow> (Inr (JStr ''[Unable to convert to string]''), seen)))"
| "sanitizeItems h seen [] depth = (Inr [], seen)"
| "sanitizeItems h seen (item # items) depth =
     (case sanitizeValue h seen item depth of
        (Inl e, seen') \<Rightarrow> (Inl e, seen')
      | (Inr y, seen') \<Rightarrow>
          (case sanitizeItems h seen' items depth of
             (Inl e, seen'') \<Rightarrow> (Inl e, seen'')
           | (Inr ys, seen'') \<Rightarrow> (Inr (y # ys), seen'')))"
  by pat_completeness auto

termination
  by (relation "measures
        [\<lambda>x. case x of Inl (h, seen, v, depth) \<Rightarrow> 7 - depth
                      | Inr (h, seen, items, depth) \<Rightarrow> 7 - depth,
         \<lambda>x. case x of Inl (h, seen, v, depth) \<Rightarrow> 0
                      | Inr (h, seen, items, depth) \<Rightarrow> Suc (length items)]")
     auto

declare sanitizeValue.simps [simp del]

text \<open>
  The argument of \<open>sanitizeFields\<close> is an object, given by its own enumerable
  properties in the order of \<open>Object.entries\<close>, which reads each of them (and throws
  when a read throws) before the loop starts.
\<close>

type_synonym object_properties = "(string \<times> property) list"

fun Object_entries :: "object_properties \<Rightarrow> fields completion" where
  "Object_entries [] = Inr []"
| "Object_entries ((k, p) # ps) =
     (case read_property p of
        Inl e \<Rightarrow> Inl e
      | Inr v \<Rightarrow> (case Object_entries ps of Inl e \<Rightarrow> Inl e | Inr rest \<Rightarrow> Inr ((k, v) # rest)))"

text \<open>
  The object \<open>sanitized\<close> that the loop fills: its own properties and its prototype,
  \<open>None\<close> for \<open>Object.prototype\<close>, which it has as the literal \<^verbatim>\<open>{}\<close>.
\<close>

record sanitized_object =
  own_fields :: fields
  prototype :: "jsval option"

definition empty_object :: sanitized_object where
  "empty_object = \<lparr>own_fields = [], prototype = None\<rparr>"

text \<open>The values that are objects: what the \<open>__proto__\<close> setter accepts besides \<open>null\<close>.\<close>

definition is_object :: "heap \<Rightarrow> jsval \<Rightarrow> bool" where
  "is_object h v = (v \<noteq> JNull \<and> (typeof h v = ''object'' \<or> typeof h v = ''function''))"

text \<open>
  An assignment to a key that is not an own property consults the prototype. A
  property found there that is not writable, or an accessor without setter, makes the
  assignment throw a \<open>TypeError\<close>: a class body is strict code. A setter found there
  is called instead, and the assignment throws what the setter throws. The result is
  \<open>None\<close> when the prototype leaves the assignment to the object itself. By-value arrays
  and literals have writable data properties only; of a built-in function, \<open>name\<close>,
  \<open>length\<close> and \<open>prototype\<close> are not writable, and \<open>caller\<close> and \<open>arguments\<close> are
  accessors whose setter throws. The message texts are those of V8, shortened.
\<close>

definition read_only_property :: "string \<Rightarrow> exn" where
  "read_only_property key =
     TypeError (''Cannot assign to read only property '' @ key @ '' of object'')"

definition inherited_assignment :: "heap \<Rightarrow> jsval \<Rightarrow> string \<Rightarrow> unit completion option" where
  "inherited_assignment h p key =
     (case p of
        JRef a \<Rightarrow>
          (case map_of (slots (deref h a)) key of
             Some (_, ReadOnly v) \<Rightarrow> Some (Inl (read_only_property key))
           | Some (_, Getter c) \<Rightarrow>
               Some (Inl (TypeError (''Cannot set property '' @ key @ '' which has only a getter'')))
           | Some (_, Accessor c s) \<Rightarrow> Some s
           | _ \<Rightarrow> None)
      | JBuiltin n \<Rightarrow>
          if key = ''name'' \<or> key = ''length'' \<or> key = ''prototype'' then
            Some (Inl (read_only_property key))
          else if key = ''caller'' \<or> key = ''arguments'' then
            Some (Inl (TypeError (''caller, callee, and arguments properties may not be ''
                                  @ ''accessed on strict mode functions'')))
          else None
      | _ \<Rightarrow> None)"

text \<open>
  \<^verbatim>\<open>sanitized[key] = value\<close>, with \<open>Object.prototype\<close> as the language defines it. The
  key \<open>__proto__\<close> names the accessor of \<open>Object.prototype\<close>, whose setter installs an
  object or \<open>null\<close> as the prototype of \<open>sanitized\<close>, ignores every other value and
  creates no own property. (\<open>Object.entries\<close> gives each key once, so that assignment
  finds the prototype still \<open>Object.prototype\<close>.) Any other key replaces an own
  property in place; a key that is not an own property is appended, unless the
  installed prototype throws or has a setter for it. The other properties of
  \<open>Object.prototype\<close> are writable data properties and block nothing.
\<close>

definition assign_field :: "heap \<Rightarrow> string \<Rightarrow> jsval \<Rightarrow> sanitized_object \<Rightarrow> sanitized_object completion" where
  "assign_field h key v sanitized =
     (if key = ''__proto__'' then
        Inr (if is_object h v \<or> v = JNull then sanitized\<lparr>prototype := Some v\<rparr> else sanitized)
      else if key \<in> fst ` set (own_fields sanitized) then
        Inr (sanitized\<lparr>own_fields := set_field key v (own_fields sanitized)\<rparr>)
      else
        case (case prototype sanitized of
                None \<Rightarrow> None
              | Some p \<Rightarrow> inherited_assignment h p key) of
          None \<Rightarrow> Inr (sanitized\<lparr>own_fields := set_field key v (own_fields sanitized)\<rparr>)
        | Some (Inl e) \<Rightarrow> Inl e
        | Some (Inr u) \<Rightarrow> Inr sanitized)"

text \<open>
  \<^verbatim>\<open>`[Error sanitizing field: ${fieldError?.message || 'Unknown'}]`\<close>: reading the
  message of what was caught and converting it to a string can throw in turn.
\<close>

definition sanitizing_error :: "heap \<Rightarrow> exn \<Rightarrow> jsval completion" where
  "sanitizing_error h fieldError =
     and_then (caught_message_optional h fieldError) (\<lambda>m.
     and_then (js_ToString h (or_else m (JStr ''Unknown''))) (\<lambda>msg.
       Inr (JStr (''[Error sanitizing field: '' @ msg @ '']''))))"

text \<open>
  One turn of the loop \<^verbatim>\<open>for (const [key, value] of Object.entries(fields))\<close>: the
  \<open>try\<close> block \<^verbatim>\<open>sanitized[key] = sanitizeValue(value)\<close> and, when the call or the
  assignment throws, the \<open>catch\<close> handler, whose own assignment is outside any \<open>try\<close>.
\<close>

definition sanitize_field :: "heap \<Rightarrow> addr set \<Rightarrow> string \<Rightarrow> jsval \<Rightarrow> sanitized_object \<Rightarrow> sanitized_object completion \<times> addr set" where
  "sanitize_field h seen key v sanitized =
     (case sanitizeValue h seen v 0 of
        (result, seen') \<Rightarrow>
          (case and_then result (\<lambda>v'. assign_field h key v' sanitized) of
             Inr sanitized' \<Rightarrow> (Inr sanitized', seen')
           | Inl fieldError \<Rightarrow>
               (and_then (sanitizing_error h fieldError) (\<lambda>msg.
                  assign_field h key msg sanitized),
                seen')))"

fun sanitize_loop :: "heap \<Rightarrow> addr set \<Rightarrow> fields \<Rightarrow> sanitized_object \<Rightarrow> sanitized_object completion" where
  "sanitize_loop h seen [] sanitized = Inr sanitized"
| "sanitize_loop h seen ((key, v) # rest) sanitized =
     (case sanitize_field h seen key v sanitized of
        (Inl e, seen') \<Rightarrow> Inl e
      | (Inr sanitized', seen') \<Rightarrow> sanitize_loop h seen' rest sanitized')"

definition sanitizeFields :: "heap \<Rightarrow> object_properties \<Rightarrow> sanitized_object completion" where
  "sanitizeFields h fs =
     and_then (Object_entries fs) (\<lambda>entries. sanitize_loop h {} entries empty_object)"


section \<open>The logger (src/logger.js)\<close>

text \<open>
  A transport is the console transport, the Slack transport, or a custom one given by
  its name and its \<open>shouldHandle\<close>. \<open>ConsoleTransport\<close> inherits \<open>shouldHandle\<close>
  from \<open>BaseTransport\<close>, which returns \<open>true\<close>.
\<close>

datatype transport =
    ConsoleTransport
  | SlackTransport slack_transport
  | CustomTransport string "string \<Rightarrow> bool"

fun shouldHandle :: "transport \<Rightarrow> process \<Rightarrow> string \<Rightarrow> bool" where
  "shouldHandle ConsoleTransport p level = True"
| "shouldHandle (SlackTransport this) p level = SlackTransport_shouldHandle this p level"
| "shouldHandle (CustomTransport name handles) p level = handles level"

text \<open>
  The options of \<open>createLogger\<close> that the functions below read (\<open>appName\<close> and
  \<open>debug\<close> only reach \<open>send\<close> and \<open>debug\<close>).
\<close>

record logger_config =
  environment :: "string option"
  slack :: "slack_config option"
  errorsToTreatAsWarnings :: "string list option"
  transports :: "transport list"

text \<open>What the closure returned by \<open>createLogger\<close> captures.\<close>

record logger =
  logger_transports :: "transport list"
  logger_patterns :: "string list"

text \<open>
  \<open>createLogger\<close> returns the logger and the process state it leaves:
  \<^verbatim>\<open>if (config.environment) { process.env.NODE_ENV = config.environment; }\<close>
  The Slack transport is added when \<open>slackConfig.webhookUrl\<close> is truthy.
\<close>

definition createLogger :: "logger_config \<Rightarrow> process \<Rightarrow> logger \<times> process" where
  "createLogger config p =
     (let slackConfig = (case slack config of
                           None \<Rightarrow> \<lparr>cfg_webhookUrl = None, cfg_enabled = None,
                                     cfg_skipInDevelopment = None\<rparr>
                         | Some c \<Rightarrow> c);
          p' = (if truthy_string (environment config)
                then p\<lparr>NODE_ENV := environment config\<rparr> else p)
      in (\<lparr>logger_transports =
             [ConsoleTransport]
             @ (if truthy_string (cfg_webhookUrl slackConfig)
                then [SlackTransport (new_SlackTransport slackConfig)] else [])
             @ transports config,
           logger_patterns =
             (case errorsToTreatAsWarnings config of
                None \<Rightarrow> DEFAULT_WARNING_PATTERNS
              | Some ps \<Rightarrow> ps)\<rparr>,
          p'))"

text \<open>
  The argument of one \<open>sendToTransports\<close> call. \<open>sendToTransports\<close> is asynchronous:
  whatever happens inside it, the caller gets a promise back and nothing is raised.
\<close>

record log_entry =
  entry_level :: string
  entry_message :: jsval
  entry_args :: "jsval list"
  entry_fields :: fields
  entry_error :: jsval

text \<open>The transports that \<open>sendToTransports\<close> selects for an entry.\<close>

definition selected_transports :: "logger \<Rightarrow> process \<Rightarrow> log_entry \<Rightarrow> transport list" where
  "selected_transports lg p entry =
     filter (\<lambda>t. shouldHandle t p (entry_level entry)) (logger_transports lg)"

text \<open>\<open>console.trace\<close> prints only; the result is what the caller branches on.\<close>

definition validateErrorArgs :: "jsval list \<Rightarrow> bool" where
  "validateErrorArgs args = (if args = [] \<or> length args > 2 then False else True)"

text \<open>\<open>args[i]\<close>: \<open>undefined\<close> beyond the end.\<close>

definition arg :: "jsval list \<Rightarrow> nat \<Rightarrow> jsval" where
  "arg args i = (if i < length args then args ! i else JUndefined)"

text \<open>
  \<open>error(...args)\<close> and \<open>errorBackground(...args)\<close>: the result is the exception the
  call raises, or the entries it hands to \<open>sendToTransports\<close> (none or one).
  \<^verbatim>\<open>error && shouldTreatAsWarning(error, errorsToTreatAsWarnings)\<close> calls the
  function only for a truthy \<open>error\<close>.
\<close>

definition logger_error :: "logger \<Rightarrow> process \<Rightarrow> heap \<Rightarrow> jsval list \<Rightarrow> log_entry list completion" where
  "logger_error lg p h args =
     (if \<not> validateErrorArgs args \<and> isDevelopment p then Inr []
      else
        let message = arg args 0; err = arg args 1
        in and_then (if truthy err then shouldTreatAsWarning h err (logger_patterns lg)
                     else Inr False) (\<lambda>asWarning.
             if asWarning then
               and_then (js_ToString h message) (\<lambda>m.
                 Inr [\<lparr>entry_level = LogLevels_WARN,
                       entry_message = JStr (m @ '' [error treated as warn]''),
                       entry_args = [err], entry_fields = [], entry_error = err\<rparr>])
             else
               Inr [\<lparr>entry_level = LogLevels_ERROR,
                     entry_message = message,
                     entry_args = (if truthy err then [err] else []),
                     entry_fields = [], entry_error = err\<rparr>]))"

definition logger_errorBackground :: "logger \<Rightarrow> process \<Rightarrow> heap \<Rightarrow> jsval list \<Rightarrow> log_entry list completion" where
  "logger_errorBackground lg p h args =
     (if \<not> validateErrorArgs args \<and> isDevelopment p then Inr []
      else
        let message = arg args 0; err = arg args 1
        in and_then (if truthy err then shouldTreatAsWarning h err (logger_patterns lg)
                     else Inr False) (\<lambda>asWarning.
             if asWarning then
               and_then (js_ToString h message) (\<lambda>m.
                 Inr [\<lparr>entry_level = LogLevels_WARN,
                       entry_message = JStr (m @ '' [background error treated as warn]''),
                       entry_args = [err], entry_fields = [], entry_error = err\<rparr>])
             else
               Inr [\<lparr>entry_level = LogLevels_ERROR_BACKGROUND,
                     entry_message = message,
                     entry_args = (if truthy err then [err] else []),
                     entry_fields = [(''isBackground'', JBool True)],
                     entry_error = err\<rparr>]))"

section \<open>Properties of sanitised values\<close>

text \<open>
  The values that \<open>sanitizeValue\<close> returns unchanged before it looks at arrays and
  objects: \<open>null\<close>, \<open>undefined\<close>, strings, numbers and booleans.
\<close>

definition passes_through :: "heap \<Rightarrow> jsval \<Rightarrow> bool" where
  "passes_through h v =
     (v = JNull \<or> v = JUndefined \<or> typeof h v = ''string'' \<or> typeof h v = ''number''
      \<or> typeof h v = ''boolean'')"

text \<open>
  \<open>depth_limited d v\<close>: in a value produced at depth \<open>d\<close>, the arrays that the
  recursion built sit at depths up to 5, and whatever sits deeper is the marker.
\<close>

fun depth_limited :: "nat \<Rightarrow> jsval \<Rightarrow> bool" where
  "depth_limited d (JArr xs) = (d \<le> 5 \<and> (\<forall>x \<in> set xs. depth_limited (Suc d) x))"
| "depth_limited d v = (d \<le> 5 \<or> v = JStr ''[Max depth reached]'')"

text \<open>The text that a string-valued or falsy \<open>message\<close> or \<open>reason\<close> contributes to
  the match in \<open>shouldTreatAsWarning\<close>.\<close>

definition text_of :: "jsval \<Rightarrow> string" where
  "text_of v = (case v of JStr s \<Rightarrow> s | _ \<Rightarrow> [])"

section \<open>Example values\<close>

text \<open>
  \<^verbatim>\<open>{ get message() { throw new Error('boom') },
    toString() { throw new Error('no string form') } }\<close>
\<close>

definition hostile_error :: jsobj where
  "hostile_error =
     \<lparr>kind = KOrdinary,
      slots = [(''message'', True, Getter (Inl (Exn ''Error'' ''boom'')))],
      elems = [],
      toStr = Inl (Exn ''Error'' ''no string form'')\<rparr>"

text \<open>\<^verbatim>\<open>{ message: 404 }\<close> and \<^verbatim>\<open>{ message: 'Request Timeout', reason: 504 }\<close>\<close>

definition status_error :: jsobj where
  "status_error = plain_object [(''message'', JNum (Num ''404''))]"

definition timeout_error :: jsobj where
  "timeout_error =
     plain_object [(''message'', JStr ''Request Timeout''), (''reason'', JNum (Num ''504''))]"

text \<open>\<^verbatim>\<open>createLogger({})\<close>, \<^verbatim>\<open>createLogger({ environment: 'production' })\<close>\<close>

definition default_config :: logger_config where
  "default_config =
     \<lparr>environment = None, slack = None, errorsToTreatAsWarnings = None, transports = []\<rparr>"

definition production_config :: logger_config where
  "production_config =
     \<lparr>environment = Some ''production'', slack = None, errorsToTreatAsWarnings = None,
      transports = []\<rparr>"

definition development :: process where
  "development = \<lparr>NODE_ENV = None\<rparr>"

definition production :: process where
  "production = \<lparr>NODE_ENV = Some ''production''\<rparr>"

text \<open>\<^verbatim>\<open>new SlackTransport({ webhookUrl: 'https://hooks.slack.com/services/T/B/X' })\<close>\<close>

definition default_sink :: slack_transport where
  "default_sink = new_SlackTransport
     \<lparr>cfg_webhookUrl = Some ''https://hooks.slack.com/services/T/B/X'',
      cfg_enabled = None, cfg_skipInDevelopment = None\<rparr>"

text \<open>
  \<^verbatim>\<open>const a = {}; a.self = a; const list = []; list.push(list);\<close> at addresses 0 and
  1, and the fields \<^verbatim>\<open>{ a, list }\<close>. \<open>String(list)\<close> is the empty string.
\<close>

definition cyclic_heap :: heap where
  "cyclic_heap =
     [plain_object [(''self'', JRef 0)],
      \<lparr>kind = KArray, slots = [], elems = [JRef 1], toStr = Inr []\<rparr>]"

definition cyclic_fields :: object_properties where
  "cyclic_fields = [(''a'', Data (JRef 0)), (''list'', Data (JRef 1))]"

text \<open>
  \<^verbatim>\<open>const frozen = Object.freeze({ y: 1 });\<close> at address 0 and the fields
  \<^verbatim>\<open>{ ['__proto__']: frozen, y: 2 }\<close>, in which \<open>__proto__\<close> is an own property.
\<close>

definition frozen_heap :: heap where
  "frozen_heap =
     [\<lparr>kind = KOrdinary,
       slots = [(''y'', True, ReadOnly (JNum (Num ''1''))),
                (''constructor'', False, Data (JBuiltin ''Object''))],
       elems = [],
       toStr = Inr ''[object Object]''\<rparr>]"

definition frozen_fields :: object_properties where
  "frozen_fields = [(''__proto__'', Data (JRef 0)), (''y'', Data (JNum (Num ''2'')))]"



lemmas eval_defs =
  shouldTreatAsWarning_def plain_object_def deref_def and_then_def
  DEFAULT_WARNING_PATTERNS_def or_else_def not_a_function_def TypeError_def

section \<open>The environment classifier\<close>

text \<open>
  Claim C4 says that the classifier always answers development, staging or production.
  It does not: a value such as \<open>test\<close> is returned as it is, and the prefix follows it.
\<close>

theorem getEnvironment_test_counterexample:
  "getEnvironment \<lparr>NODE_ENV = Some ''test''\<rparr> = ''test'' \<and>
   getEnvironmentPrefix \<lparr>NODE_ENV = Some ''test''\<rparr> = ''test-''"
  by (simp add: environment_defs)

text \<open>
  Claim C4, amended: \<open>getEnvironment\<close> reports development when \<open>NODE_ENV\<close> is absent
  or empty and returns every other value unchanged; the prefix is the reported
  environment followed by \<open>-\<close>, and it is empty exactly for production.
\<close>

theorem getEnvironment_passes_value_through:
  "(NODE_ENV p = None \<or> NODE_ENV p = Some [] \<longrightarrow>
      getEnvironment p = ''development'' \<and> getEnvironmentPrefix p = ''development-'') \<and>
   (\<forall>s. NODE_ENV p = Some s \<and> s \<noteq> [] \<longrightarrow> getEnvironment p = s) \<and>
   (getEnvironment p \<noteq> ''production'' \<longrightarrow>
      getEnvironmentPrefix p = getEnvironment p @ ''-'') \<and>
   (getEnvironmentPrefix p = [] \<longleftrightarrow> getEnvironment p = ''production'')"
  by (auto simp: environment_defs Let_def split: option.splits)

text \<open>The amended claim C4 at an unset variable and at \<open>staging\<close>.\<close>

theorem getEnvironment_passes_value_through_witness:
  "getEnvironment \<lparr>NODE_ENV = None\<rparr> = ''development'' \<and>
   getEnvironmentPrefix \<lparr>NODE_ENV = None\<rparr> = ''development-'' \<and>
   getEnvironment \<lparr>NODE_ENV = Some ''staging''\<rparr> = ''staging'' \<and>
   getEnvironmentPrefix \<lparr>NODE_ENV = Some ''staging''\<rparr> = ''staging-''"
  using getEnvironment_passes_value_through [of "\<lparr>NODE_ENV = None\<rparr>"]
        getEnvironment_passes_value_through [of "\<lparr>NODE_ENV = Some ''staging''\<rparr>"]
  by simp

section \<open>The Slack transport's shouldHandle\<close>

text \<open>
  Claim C3 says that a sink with the skip flag set handles nothing in any environment
  below production. In staging the sink built with the default flags handles \<open>error\<close>.
\<close>

theorem shouldHandle_staging_counterexample:
  "skipInDevelopment default_sink \<and>
   isStaging \<lparr>NODE_ENV = Some ''staging''\<rparr> \<and>
   SlackTransport_shouldHandle default_sink \<lparr>NODE_ENV = Some ''staging''\<rparr> ''error''"
  by (simp add: default_sink_def new_SlackTransport_def SlackTransport_shouldHandle_def
      truthy_string_def environment_defs level_defs)

text \<open>
  Claim C3, amended: with the skip flag set \<open>shouldHandle\<close> is false in the development
  environment (\<open>NODE_ENV\<close> absent, empty or \<open>development\<close>), for every level; an enabled
  sink with a webhook to which the skip does not apply handles exactly \<open>warn\<close>,
  \<open>error\<close>, \<open>error-background\<close> and the Slack level \<open>error-bg\<close>.
\<close>

theorem shouldHandle_skips_development_only:
  "(skipInDevelopment t \<and> isDevelopment p \<longrightarrow> \<not> SlackTransport_shouldHandle t p level) \<and>
   (enabled t \<and> truthy_string (webhookUrl t) \<and> \<not> (skipInDevelopment t \<and> isDevelopment p) \<longrightarrow>
      SlackTransport_shouldHandle t p level =
        (level \<in> {''warn'', ''error'', ''error-background'', ''error-bg''})) \<and>
   isDevelopment p = (NODE_ENV p \<in> {None, Some [], Some ''development''})"
  by (auto simp: SlackTransport_shouldHandle_def level_defs environment_defs
      split: option.splits)

text \<open>
  The amended claim C3 for the default sink: nothing in development; in production
  \<open>warn\<close> is handled and \<open>info\<close> is not.
\<close>

theorem shouldHandle_skips_development_only_witness:
  "\<not> SlackTransport_shouldHandle default_sink \<lparr>NODE_ENV = None\<rparr> ''error'' \<and>
   SlackTransport_shouldHandle default_sink \<lparr>NODE_ENV = Some ''production''\<rparr> ''warn'' \<and>
   \<not> SlackTransport_shouldHandle default_sink \<lparr>NODE_ENV = Some ''production''\<rparr> ''info''"
  using shouldHandle_skips_development_only
          [of default_sink "\<lparr>NODE_ENV = None\<rparr>" "''error''"]
        shouldHandle_skips_development_only
          [of default_sink "\<lparr>NODE_ENV = Some ''production''\<rparr>" "''warn''"]
        shouldHandle_skips_development_only
          [of default_sink "\<lparr>NODE_ENV = Some ''production''\<rparr>" "''info''"]
  by (simp add: default_sink_def new_SlackTransport_def truthy_string_def)

section \<open>extractErrorFields\<close>

text \<open>
  Claim C1 says that \<open>extractErrorFields\<close> never raises. When reading \<open>message\<close>
  throws, the \<open>catch\<close> handler calls \<open>String(error)\<close>; for an object whose conversion
  to a string throws as well, that exception leaves the function.
\<close>

theorem extractErrorFields_raises_on_hostile_object:
  "extractErrorFields [hostile_error] (JRef 0) = Inl (Exn ''Error'' ''no string form'')"
  by (simp add: extractErrorFields_def extractErrorFields_try_def extractMessage_def
      hostile_error_def deref_def and_then_def caught_message_def)

text \<open>
  What does hold: \<open>extractErrorFields\<close> returns a mapping whenever \<open>String(error)\<close>
  does not throw and what the \<open>try\<close> block throws, if anything, is an error object.
\<close>

lemma extractErrorFields_returns_when_String_does:
  assumes "js_String h e = Inr raw" and "\<forall>v. extractErrorFields_try h e \<noteq> Inl (Thrown v)"
  shows "\<exists>fs. extractErrorFields h e = Inr fs"
proof (cases "extractErrorFields_try h e")
  case (Inr fs)
  then show ?thesis
    by (simp add: extractErrorFields_def)
next
  case (Inl a)
  with assms(2) obtain name msg where "a = Exn name msg"
    by (cases a) auto
  with Inl assms(1) show ?thesis
    by (simp add: extractErrorFields_def caught_message_def and_then_def)
qed

text \<open>
  Claim C2 says that every string, number and boolean is reported as an invalid format.
  The number \<open>0\<close> is falsy and gets the empty mapping from the guard at the top.
\<close>

theorem extractErrorFields_zero_counterexample:
  "typeof [] (JNum Zero) = ''number'' \<and> extractErrorFields [] (JNum Zero) = Inr []"
  by (simp add: extractErrorFields_def)

lemma js_String_primitive:
  "typeof h e \<in> {''string'', ''number'', ''boolean''} \<Longrightarrow> \<exists>raw. js_String h e = Inr raw"
  by (cases e) (auto split: if_splits)

text \<open>
  Claim C2, amended: a falsy input gets the empty mapping; for every truthy string,
  number or boolean \<open>e\<close> the result has \<open>errorFormatInvalid\<close> true, names the type in
  \<open>errorFormatError\<close> and holds \<open>String(e)\<close> under \<open>errorRawValue\<close>.
\<close>

theorem extractErrorFields_primitive:
  "(\<not> truthy e \<longrightarrow> extractErrorFields h e = Inr []) \<and>
   (truthy e \<and> typeof h e \<in> {''string'', ''number'', ''boolean''} \<longrightarrow>
      (\<exists>raw. js_String h e = Inr raw \<and>
         extractErrorFields h e =
           Inr [(''errorFormatInvalid'', JBool True),
                (''errorFormatError'',
                   JStr (''Expected error to be an object, but received '' @ typeof h e)),
                (''errorRawValue'', JStr raw)]))"
proof (intro conjI impI)
  assume "\<not> truthy e"
  then show "extractErrorFields h e = Inr []"
    by (simp add: extractErrorFields_def)
next
  assume a: "truthy e \<and> typeof h e \<in> {''string'', ''number'', ''boolean''}"
  then obtain raw where raw: "js_String h e = Inr raw"
    using js_String_primitive by blast
  from a have "typeof h e \<noteq> ''object''"
    by auto
  with a raw have "extractErrorFields h e =
      Inr [(''errorFormatInvalid'', JBool True),
           (''errorFormatError'',
              JStr (''Expected error to be an object, but received '' @ typeof h e)),
           (''errorRawValue'', JStr raw)]"
    by (simp add: extractErrorFields_def extractErrorFields_try_def and_then_def)
  with raw show "\<exists>raw. js_String h e = Inr raw \<and>
      extractErrorFields h e =
        Inr [(''errorFormatInvalid'', JBool True),
             (''errorFormatError'',
                JStr (''Expected error to be an object, but received '' @ typeof h e)),
             (''errorRawValue'', JStr raw)]"
    by blast
qed

text \<open>The amended claim C2 at the string \<open>disk full\<close>.\<close>

theorem extractErrorFields_primitive_witness:
  "extractErrorFields [] (JStr ''disk full'') =
     Inr [(''errorFormatInvalid'', JBool True),
          (''errorFormatError'', JStr ''Expected error to be an object, but received string''),
          (''errorRawValue'', JStr ''disk full'')]"
  using extractErrorFields_primitive [of "JStr ''disk full''" "[]"] by simp

section \<open>shouldTreatAsWarning and the error methods\<close>

lemma and_then_Inr [simp]: "and_then (Inr x) f = f x"
  by (simp add: and_then_def)

lemma and_then_Inl [simp]: "and_then (Inl e) f = Inl e"
  by (simp add: and_then_def)

text \<open>\<open>str_includes\<close> is the substring test.\<close>

lemma startsWith_iff: "startsWith s p \<longleftrightarrow> (\<exists>b. s = p @ b)"
  by (induction s p rule: startsWith.induct) auto

lemma str_includes_iff: "str_includes s p \<longleftrightarrow> (\<exists>a b. s = a @ p @ b)"
proof (induction s)
  case Nil
  then show ?case by auto
next
  case (Cons c s)
  show ?case
  proof
    assume "str_includes (c # s) p"
    then consider "startsWith (c # s) p" | "str_includes s p" by auto
    then show "\<exists>a b. c # s = a @ p @ b"
    proof cases
      case 1
      then obtain b where "c # s = p @ b" by (auto simp: startsWith_iff)
      then have "c # s = [] @ p @ b" by simp
      then show ?thesis by blast
    next
      case 2
      with Cons.IH obtain a b where "s = a @ p @ b" by blast
      then have "c # s = (c # a) @ p @ b" by simp
      then show ?thesis by blast
    qed
  next
    assume "\<exists>a b. c # s = a @ p @ b"
    then obtain a b where ab: "c # s = a @ p @ b" by blast
    show "str_includes (c # s) p"
    proof (cases a)
      case Nil
      with ab have "startsWith (c # s) p" by (auto simp: startsWith_iff)
      then show ?thesis by simp
    next
      case (Cons d a')
      with ab have "s = a' @ p @ b" by simp
      with Cons.IH have "str_includes s p" by blast
      then show ?thesis by simp
    qed
  qed
qed

lemma some_total:
  "\<forall>x \<in> set xs. f x = Inr (g x) \<Longrightarrow> some f xs = Inr (\<exists>x \<in> set xs. g x)"
  by (induction xs) auto

text \<open>
  When the message and the reason are strings or falsy, \<open>shouldTreatAsWarning\<close> returns
  whether some pattern is a substring of one of them.
\<close>

lemma shouldTreatAsWarning_on_strings:
  assumes "truthy e" and "patterns \<noteq> []"
    and "js_get h e ''message'' = Inr m" and "js_get h e ''reason'' = Inr r"
    and "typeof h m = ''string'' \<or> \<not> truthy m" and "typeof h r = ''string'' \<or> \<not> truthy r"
  shows "shouldTreatAsWarning h e patterns =
           Inr (\<exists>p \<in> set patterns. str_includes (text_of m) p \<or> str_includes (text_of r) p)"
proof -
  have m: "or_else m (JStr []) = JStr (text_of m)"
    using assms(5) by (cases m) (auto simp: or_else_def text_of_def split: if_splits)
  have r: "or_else r (JStr []) = JStr (text_of r)"
    using assms(6) by (cases r) (auto simp: or_else_def text_of_def split: if_splits)
  have "some (\<lambda>pattern.
          and_then (js_includes h ''message'' (JStr (text_of m)) pattern) (\<lambda>found.
            if found then Inr True else js_includes h ''reason'' (JStr (text_of r)) pattern))
        patterns
      = Inr (\<exists>p \<in> set patterns. str_includes (text_of m) p \<or> str_includes (text_of r) p)"
    by (rule some_total) simp
  with assms(1-4) show ?thesis
    by (simp add: shouldTreatAsWarning_def m r cong: if_cong)
qed

text \<open>
  Claim C5 says that \<open>shouldTreatAsWarning\<close> matches the message and the reason as
  strings and never raises. The function calls \<open>includes\<close> on the values as they are:
  for the numeric message of \<^verbatim>\<open>{ message: 404 }\<close> the call throws a \<open>TypeError\<close>.
\<close>

theorem shouldTreatAsWarning_raises_on_number_message:
  "shouldTreatAsWarning [status_error] (JRef 0) DEFAULT_WARNING_PATTERNS
     = Inl (TypeError ''message.includes is not a function'')"
  by (simp add: status_error_def eval_defs)

text \<open>
  Claim C5 at \<^verbatim>\<open>{ message: 404 }\<close>: the call gives neither answer.
\<close>

theorem shouldTreatAsWarning_raises_on_number_message_witness:
  "shouldTreatAsWarning [status_error] (JRef 0) DEFAULT_WARNING_PATTERNS \<noteq> Inr True \<and>
   shouldTreatAsWarning [status_error] (JRef 0) DEFAULT_WARNING_PATTERNS \<noteq> Inr False"
  using shouldTreatAsWarning_raises_on_number_message by simp

text \<open>
  Claim C6 says that outside development a call of \<open>error\<close> with three arguments still
  dispatches one entry. In production, with \<^verbatim>\<open>{ message: 404 }\<close> as the second
  argument, the call raises before it reaches \<open>sendToTransports\<close>.
\<close>

theorem error_three_arguments_production_raises:
  "logger_error (fst (createLogger default_config production)) production [status_error]
       [JStr ''payment failed'', JRef 0, JStr ''extra'']
     = Inl (TypeError ''message.includes is not a function'')"
  by (simp add: logger_error_def createLogger_def default_config_def production_def
      validateErrorArgs_def arg_def environment_defs truthy_string_def status_error_def
      eval_defs)

text \<open>
  Claim C7 says that \<open>error(message, e)\<close> dispatches at \<open>warn\<close> whenever the message of
  \<open>e\<close> contains a default pattern. For
  \<^verbatim>\<open>{ message: 'Request Timeout', reason: 504 }\<close> the patterns before \<open>Timeout\<close> are
  tried on the numeric reason first, and the call raises.
\<close>

theorem error_timeout_with_reason_code_raises:
  "logger_error (fst (createLogger default_config production)) production [timeout_error]
       [JStr ''sync failed'', JRef 0]
     = Inl (TypeError ''reason.includes is not a function'')"
  by (simp add: logger_error_def createLogger_def default_config_def production_def
      validateErrorArgs_def arg_def environment_defs truthy_string_def timeout_error_def
      eval_defs)

text \<open>What does hold of the arity check, whatever the arguments are.\<close>

lemma error_arity_dropped_in_development:
  "\<not> validateErrorArgs args \<Longrightarrow> isDevelopment p \<Longrightarrow>
     logger_error lg p h args = Inr [] \<and> logger_errorBackground lg p h args = Inr []"
  by (simp add: logger_error_def logger_errorBackground_def)

lemma error_never_empty_outside_development:
  "\<not> isDevelopment p \<Longrightarrow> logger_error lg p h args \<noteq> Inr []"
  by (auto simp: logger_error_def and_then_def Let_def split: sum.splits if_splits)

lemma error_one_entry_or_raises:
  "\<not> isDevelopment p \<Longrightarrow>
     (\<exists>e. logger_error lg p h args = Inl e) \<or> (\<exists>entry. logger_error lg p h args = Inr [entry])"
  by (auto simp: logger_error_def and_then_def Let_def split: sum.splits if_splits)

lemma error_without_error_argument:
  "\<not> isDevelopment p \<or> validateErrorArgs args \<Longrightarrow> \<not> truthy (arg args 1) \<Longrightarrow>
     logger_error lg p h args =
       Inr [\<lparr>entry_level = ''error'', entry_message = arg args 0, entry_args = [],
             entry_fields = [], entry_error = arg args 1\<rparr>]"
  by (auto simp: logger_error_def and_then_def Let_def level_defs)

lemma error_treated_as_warn:
  assumes "truthy e" and "shouldTreatAsWarning h e (logger_patterns lg) = Inr True"
  shows "logger_error lg p h [JStr message, e] =
           Inr [\<lparr>entry_level = ''warn'',
                 entry_message = JStr (message @ '' [error treated as warn]''),
                 entry_args = [e], entry_fields = [], entry_error = e\<rparr>]"
  using assms
  by (simp add: logger_error_def validateErrorArgs_def arg_def and_then_def level_defs)

lemma error_user_not_found:
  "logger_error (fst (createLogger default_config p)) p [new_Error ''User not found'' stack]
       [JStr message, JRef 0] =
     Inr [\<lparr>entry_level = ''warn'',
           entry_message = JStr (message @ '' [error treated as warn]''),
           entry_args = [JRef 0], entry_fields = [], entry_error = JRef 0\<rparr>]"
proof -
  have "shouldTreatAsWarning [new_Error ''User not found'' stack] (JRef 0)
          (logger_patterns (fst (createLogger default_config p))) = Inr True"
    by (simp add: createLogger_def default_config_def new_Error_def shouldTreatAsWarning_def
        deref_def and_then_def DEFAULT_WARNING_PATTERNS_def or_else_def)
  then show ?thesis
    by (intro error_treated_as_warn) simp_all
qed

section \<open>createLogger and the process environment\<close>

lemma process_update [simp]: "(p :: process)\<lparr>NODE_ENV := x\<rparr> = \<lparr>NODE_ENV = x\<rparr>"
  by (cases p) simp

text \<open>
  Claim C10: a configuration with an environment value (a non-empty string) makes
  \<open>createLogger\<close> overwrite \<open>NODE_ENV\<close>. Every later read sees the new value: the
  classifier, the arity gate of any logger \<open>lg\<close> (also one created earlier), and the
  skip check of any Slack sink \<open>t\<close>.
\<close>

theorem createLogger_overwrites_NODE_ENV:
  assumes "environment config = Some s" and "s \<noteq> []"
  shows "NODE_ENV (snd (createLogger config p)) = Some s \<and>
         getEnvironment (snd (createLogger config p)) = s \<and>
         isDevelopment (snd (createLogger config p)) = (s = ''development'') \<and>
         (\<not> validateErrorArgs args \<longrightarrow>
            (logger_error lg (snd (createLogger config p)) h args = Inr [])
              = (s = ''development'')) \<and>
         (enabled t \<and> truthy_string (webhookUrl t) \<and> skipInDevelopment t \<longrightarrow>
            SlackTransport_shouldHandle t (snd (createLogger config p)) level =
              (s \<noteq> ''development'' \<and>
               level \<in> {''warn'', ''error'', ''error-background'', ''error-bg''}))"
proof -
  let ?p = "snd (createLogger config p)"
  have p: "?p = \<lparr>NODE_ENV = Some s\<rparr>"
    using assms by (simp add: createLogger_def truthy_string_def Let_def)
  have env: "getEnvironment ?p = s"
    using assms by (simp add: p getEnvironment_def)
  have dev: "isDevelopment ?p = (s = ''development'')"
    by (simp add: isDevelopment_def env ENVIRONMENT_DEVELOPMENT_def)
  have gate: "(logger_error lg ?p h args = Inr []) = (s = ''development'')"
    if "\<not> validateErrorArgs args"
  proof (cases "s = ''development''")
    case True
    with that dev show ?thesis
      using error_arity_dropped_in_development by blast
  next
    case False
    with dev show ?thesis
      using error_never_empty_outside_development by blast
  qed
  have sink: "SlackTransport_shouldHandle t ?p level =
      (s \<noteq> ''development'' \<and> level \<in> {''warn'', ''error'', ''error-background'', ''error-bg''})"
    if "enabled t \<and> truthy_string (webhookUrl t) \<and> skipInDevelopment t"
    using that dev by (auto simp: SlackTransport_shouldHandle_def level_defs)
  from p env dev gate sink show ?thesis
    by simp
qed

text \<open>
  Claim C10 on a run: a logger created in development drops \<open>error()\<close>; after a second
  \<open>createLogger\<close> with \<open>environment: 'production'\<close> the classifier answers production
  and the first logger no longer drops the call.
\<close>

theorem createLogger_overwrites_NODE_ENV_witness:
  "logger_error (fst (createLogger default_config development)) development [] [] = Inr [] \<and>
   getEnvironment
     (snd (createLogger production_config (snd (createLogger default_config development))))
     = ''production'' \<and>
   logger_error (fst (createLogger default_config development))
     (snd (createLogger production_config (snd (createLogger default_config development))))
     [] [] \<noteq> Inr []"
proof -
  have cfg: "environment production_config = Some ''production''"
    by (simp add: production_config_def)
  have ne: "''production'' \<noteq> []"
    by simp
  have arity: "\<not> validateErrorArgs []"
    by (simp add: validateErrorArgs_def)
  have before:
    "logger_error (fst (createLogger default_config development)) development [] [] = Inr []"
    by (simp add: logger_error_def validateErrorArgs_def development_def environment_defs)
  from createLogger_overwrites_NODE_ENV
         [OF cfg ne, of "snd (createLogger default_config development)" "[]"
            "fst (createLogger default_config development)" "[]"]
       arity before
  show ?thesis
    by simp
qed


section \<open>sanitizeValue: depth limit and cycles\<close>

lemma describe_unserializable_not_array:
  "describe_unserializable h v = Inr r \<Longrightarrow> depth_limited d r = (d \<le> 5 \<or> r = JStr ''[Max depth reached]'')"
  by (auto simp: describe_unserializable_def and_then_def split: if_splits sum.splits)

lemma sanitizeObject_depth_limited:
  "sanitizeObject h seen v = (Inr r, seen') \<Longrightarrow> \<not> isArray h v \<Longrightarrow> d \<le> 5 \<Longrightarrow> depth_limited d r"
  by (cases v) (auto simp: sanitizeObject_def isArray_def describe_unserializable_not_array split: if_splits)

lemma sanitizeValue_beyond:
  "5 < d \<Longrightarrow> sanitizeValue h seen v d = (Inr (JStr ''[Max depth reached]''), seen)"
  by (simp add: sanitizeValue.simps)

lemma sanitizeValue_primitive:
  "d \<le> 5 \<Longrightarrow> passes_through h v \<Longrightarrow> sanitizeValue h seen v d = (Inr v, seen)"
  unfolding passes_through_def by (subst sanitizeValue.simps) auto

lemma sanitizeValue_array:
  "d \<le> 5 \<Longrightarrow> \<not> passes_through h v \<Longrightarrow> isArray h v \<Longrightarrow>
     sanitizeValue h seen v d =
       (case sanitizeItems h seen (array_items h v) (d + 1) of
          (Inl e, seen') \<Rightarrow> (Inl e, seen')
        | (Inr ys, seen') \<Rightarrow> (Inr (JArr ys), seen'))"
  unfolding passes_through_def by (subst sanitizeValue.simps) auto

lemma sanitizeValue_object:
  "d \<le> 5 \<Longrightarrow> \<not> passes_through h v \<Longrightarrow> \<not> isArray h v \<Longrightarrow> typeof h v = ''object'' \<Longrightarrow>
     sanitizeValue h seen v d = sanitizeObject h seen v"
  unfolding passes_through_def by (subst sanitizeValue.simps) auto

lemma sanitizeValue_other:
  "d \<le> 5 \<Longrightarrow> \<not> passes_through h v \<Longrightarrow> \<not> isArray h v \<Longrightarrow> typeof h v \<noteq> ''object'' \<Longrightarrow>
     sanitizeValue h seen v d =
       (case js_String h v of
          Inr s \<Rightarrow> (Inr (JStr s), seen)
        | Inl e \<Rightarrow> (Inr (JStr ''[Unable to convert to string]''), seen))"
  unfolding passes_through_def by (subst sanitizeValue.simps) auto

lemma passes_through_not_array:
  "passes_through h v \<Longrightarrow> depth_limited d v = (d \<le> 5 \<or> v = JStr ''[Max depth reached]'')"
  by (cases v) (auto simp: passes_through_def)

lemma sanitizeValue_depth_limited:
  "sanitizeValue h seen v d = (Inr r, seen') \<Longrightarrow> depth_limited d r"
  "sanitizeItems h seen items d = (Inr rs, seen') \<Longrightarrow> \<forall>x \<in> set rs. depth_limited d x"
proof (induction h seen v d and h seen items d arbitrary: r seen' and rs seen'
    rule: sanitizeValue_sanitizeItems.induct)
  case (1 h seen v depth)
  consider (beyond) "5 < depth"
    | (prim) "depth \<le> 5" "passes_through h v"
    | (array) "depth \<le> 5" "\<not> passes_through h v" "isArray h v"
    | (object) "depth \<le> 5" "\<not> passes_through h v" "\<not> isArray h v" "typeof h v = ''object''"
    | (other) "depth \<le> 5" "\<not> passes_through h v" "\<not> isArray h v" "typeof h v \<noteq> ''object''"
    by fastforce
  then show ?case
  proof cases
    case beyond
    with "1.prems" show ?thesis
      by (auto simp: sanitizeValue_beyond)
  next
    case prim
    with "1.prems" show ?thesis
      by (auto simp: sanitizeValue_primitive passes_through_not_array)
  next
    case array
    with "1.prems" obtain ys where
      ys: "sanitizeItems h seen (array_items h v) (depth + 1) = (Inr ys, seen')" and r: "r = JArr ys"
      by (auto simp: sanitizeValue_array split: prod.splits sum.splits)
    from array have "\<not> 5 < depth" "\<not> (v = JNull \<or> v = JUndefined)"
      "\<not> (typeof h v = ''string'' \<or> typeof h v = ''number'' \<or> typeof h v = ''boolean'')"
      by (auto simp: passes_through_def)
    from "1.IH" [OF this array(3) ys] have "\<forall>x \<in> set ys. depth_limited (depth + 1) x" .
    with r array show ?thesis by simp
  next
    case object
    with "1.prems" have "sanitizeObject h seen v = (Inr r, seen')"
      by (simp add: sanitizeValue_object)
    with object show ?thesis
      by (auto intro: sanitizeObject_depth_limited)
  next
    case other
    with "1.prems" obtain s where "r = JStr s"
      by (auto simp: sanitizeValue_other split: sum.splits)
    with other show ?thesis by simp
  qed
next
  case (2 h seen depth)
  then show ?case by simp
next
  case (3 h seen item items depth)
  from "3.prems" obtain y s1 ys where
    y: "sanitizeValue h seen item depth = (Inr y, s1)" and
    ys: "sanitizeItems h s1 items depth = (Inr ys, seen')" and rs: "rs = y # ys"
    by (auto split: prod.splits sum.splits)
  from "3.IH"(1) [OF y] have "depth_limited depth y" .
  moreover from "3.IH"(2) [OF y [symmetric] _ ys] have "\<forall>x \<in> set ys. depth_limited depth x"
    by simp
  ultimately show ?case using rs by simp
qed

text \<open>
  On \<open>a.self = a\<close> and on an array that contains itself \<open>sanitizeFields\<close> returns: the
  object becomes a description, the array is unrolled to depth 5 and cut with the marker.
\<close>

lemma sanitizeFields_cyclic:
  "sanitizeFields cyclic_heap cyclic_fields =
     Inr \<lparr>own_fields =
            [(''a'', JStr ''[Non-serializable Object]''),
             (''list'',
                JArr [JArr [JArr [JArr [JArr [JArr [JStr ''[Max depth reached]'']]]]]])],
          prototype = None\<rparr>"
  by (simp add: sanitizeFields_def sanitize_field_def sanitizeValue.simps cyclic_heap_def
      cyclic_fields_def empty_object_def plain_object_def deref_def sanitizeObject_def
      JSON_stringify_throws_def json_children_def isArray_def array_items_def seen_has_def
      seen_add_def describe_unserializable_def instanceof_Error_def and_then_def or_else_def
      assign_field_def set_field_def)

section \<open>sanitizeFields: a prototype that blocks assignment\<close>

text \<open>
  Claim C9 says that \<open>sanitizeFields\<close> never raises. For
  \<^verbatim>\<open>{ ['__proto__']: Object.freeze({ y: 1 }), y: 2 }\<close> the first assignment installs
  the frozen object as the prototype of \<open>sanitized\<close>; the assignment to \<open>y\<close> then throws
  inside the \<open>try\<close>, and the assignment in the \<open>catch\<close> handler throws again, out of
  \<open>sanitizeFields\<close>.
\<close>

theorem sanitizeFields_raises_on_frozen_prototype:
  "sanitizeFields frozen_heap frozen_fields =
     Inl (read_only_property ''y'')"
  by (simp add: sanitizeFields_def sanitize_field_def sanitizeValue.simps frozen_heap_def
      frozen_fields_def empty_object_def deref_def sanitizeObject_def
      JSON_stringify_throws_def json_children_def isArray_def seen_has_def seen_add_def
      and_then_def or_else_def assign_field_def set_field_def is_object_def
      inherited_assignment_def read_only_property_def sanitizing_error_def
      caught_message_optional_def caught_message_def TypeError_def)

section \<open>sanitizeFields: idempotence\<close>





lemma sanitizeObject_seen_grows: "sanitizeObject h S v = (c, S') \<Longrightarrow> S \<subseteq> S'"
  by (auto simp: sanitizeObject_def seen_add_def split: if_splits jsval.splits)

lemma sanitizeValue_seen_grows:
  "sanitizeValue h S v d = (c, S') \<Longrightarrow> S \<subseteq> S'"
  "sanitizeItems h S items d = (cs, S') \<Longrightarrow> S \<subseteq> S'"
proof (induction h S v d and h S items d arbitrary: c S' and cs S'
    rule: sanitizeValue_sanitizeItems.induct)
  case (1 h S v depth)
  consider (beyond) "5 < depth"
    | (prim) "depth \<le> 5" "passes_through h v"
    | (array) "depth \<le> 5" "\<not> passes_through h v" "isArray h v"
    | (object) "depth \<le> 5" "\<not> passes_through h v" "\<not> isArray h v" "typeof h v = ''object''"
    | (other) "depth \<le> 5" "\<not> passes_through h v" "\<not> isArray h v" "typeof h v \<noteq> ''object''"
    by fastforce
  then show ?case
  proof cases
    case beyond
    with "1.prems" show ?thesis
      by (simp add: sanitizeValue_beyond)
  next
    case prim
    with "1.prems" show ?thesis
      by (simp add: sanitizeValue_primitive)
  next
    case array
    from array have *: "\<not> 5 < depth" "\<not> (v = JNull \<or> v = JUndefined)"
      "\<not> (typeof h v = ''string'' \<or> typeof h v = ''number'' \<or> typeof h v = ''boolean'')"
      by (auto simp: passes_through_def)
    obtain cs S1 where cs: "sanitizeItems h S (array_items h v) (depth + 1) = (cs, S1)"
      by (cases "sanitizeItems h S (array_items h v) (depth + 1)")
    with array "1.prems" have "S' = S1"
      by (auto simp: sanitizeValue_array split: sum.splits)
    with "1.IH" [OF * array(3) cs] show ?thesis by simp
  next
    case object
    with "1.prems" show ?thesis
      by (simp add: sanitizeValue_object sanitizeObject_seen_grows)
  next
    case other
    with "1.prems" show ?thesis
      by (auto simp: sanitizeValue_other split: sum.splits)
  qed
next
  case (2 h S depth)
  then show ?case by simp
next
  case (3 h S item items depth)
  obtain c1 S1 where c1: "sanitizeValue h S item depth = (c1, S1)"
    by (cases "sanitizeValue h S item depth")
  from "3.IH"(1) [OF c1] have S1: "S \<subseteq> S1" .
  show ?case
  proof (cases c1)
    case (Inl e)
    with c1 "3.prems" S1 show ?thesis by simp
  next
    case (Inr y)
    obtain c2 S2 where c2: "sanitizeItems h S1 items depth = (c2, S2)"
      by (cases "sanitizeItems h S1 items depth")
    from "3.IH"(2) [OF c1 [symmetric] Inr c2] have "S1 \<subseteq> S2" .
    moreover from c1 Inr c2 "3.prems" have "S' = S2"
      by (auto split: sum.splits)
    ultimately show ?thesis using S1 by simp
  qed
qed









end
